theory Spec2Isabelle
  imports Main
begin

section \<open>The broker credential of azure-identity-broker (\<^verbatim>\<open>_browser.py\<close>)\<close>

text \<open>
  The theory embeds the class \<^verbatim>\<open>InteractiveBrowserBrokerCredential\<close>: its constructor,
  \<^verbatim>\<open>_request_token\<close> and \<^verbatim>\<open>_get_app\<close>. Python names that start with an underscore are
  written without it. The credential object is a record, the client applications and token
  caches it refers to live in an explicit store of objects addressed by number, exceptions
  are values of a sum type, and every call that leaves the file (tenant resolution, the
  MSAL constructor, \<^verbatim>\<open>acquire_token_interactive\<close>, the context variable \<^verbatim>\<open>within_dac\<close>) is a
  parameter acting on an abstract outside world. A log of the calls made is kept beside the
  state, so that statements of the form "is invoked exactly once" can be written down.
\<close>

subsection \<open>Python values and keyword dictionaries\<close>

datatype pyval = PyNone | PyBool bool | PyInt int | PyStr string

text \<open>Truth value testing, as \<^verbatim>\<open>if x\<close> does it.\<close>

fun truthy :: "pyval \<Rightarrow> bool" where
  "truthy PyNone = False"
| "truthy (PyBool b) = b"
| "truthy (PyInt i) = (i \<noteq> 0)"
| "truthy (PyStr s) = (s \<noteq> [])"

type_synonym pydict = "string \<rightharpoonup> pyval"

text \<open>\<^verbatim>\<open>d.get(k)\<close>, \<^verbatim>\<open>d[k]\<close> and \<^verbatim>\<open>d.pop(k, default)\<close>.\<close>

definition dict_get :: "pydict \<Rightarrow> string \<Rightarrow> pyval" where
  "dict_get d k = (case d k of None \<Rightarrow> PyNone | Some v \<Rightarrow> v)"

definition dict_pop :: "pydict \<Rightarrow> string \<Rightarrow> pyval \<Rightarrow> pyval \<times> pydict" where
  "dict_pop d k dflt = (case d k of None \<Rightarrow> (dflt, d) | Some v \<Rightarrow> (v, d(k := None)))"

subsection \<open>Exceptions\<close>

text \<open>
  \<open>Socket_error\<close> stands for every instance of \<^verbatim>\<open>socket.error\<close>, \<open>Other_exception\<close> for an
  exception of any class that the file neither raises nor catches (class name and text).
  The two errors the file raises carry their message and the exception they were raised
  \<^verbatim>\<open>from\<close>.
\<close>

datatype exn =
    Socket_error string
  | KeyError string
  | Other_exception string string
  | CredentialUnavailableError pyval "exn option"
  | ClientAuthenticationError pyval "exn option"

fun is_socket_error :: "exn \<Rightarrow> bool" where
  "is_socket_error (Socket_error m) = True"
| "is_socket_error e = False"

definition dict_getitem :: "pydict \<Rightarrow> string \<Rightarrow> exn + pyval" where
  "dict_getitem d k = (case d k of None \<Rightarrow> Inl (KeyError k) | Some v \<Rightarrow> Inr v)"

subsection \<open>Objects, the credential and the state\<close>

text \<open>The keyword arguments of \<^verbatim>\<open>acquire_token_interactive\<close> (lines 72-81 and 87-96).\<close>

datatype prompt = Prompt_NONE | Prompt_literal string

record acquire_args =
  kw_scopes :: "string list"
  kw_login_hint :: pyval
  kw_claims_challenge :: pyval
  kw_timeout :: pyval
  kw_prompt :: prompt
  kw_port :: "int option"
  kw_parent_window_handle :: pyval
  kw_enable_msa_passthrough :: pyval

text \<open>The keyword arguments of the application constructor (lines 131-142).\<close>

record app_args =
  app_client_id :: pyval
  app_client_credential :: pyval
  app_client_capabilities :: "string list option"
  app_authority :: string
  app_azure_region :: pyval
  app_token_cache :: nat
  app_http_client :: pyval
  app_instance_discovery :: pyval
  app_enable_broker_on_windows :: bool
  app_enable_pii_log :: pyval

datatype obj = ClientApplication app_args | TokenCache

record parsed_url =
  url_port :: "int option"

text \<open>
  The attributes of the base credential that the two methods read, then the three that
  the constructor of this class adds. A reference to an object is its address in the store;
  \<open>None\<close> in a cache slot is Python's \<^verbatim>\<open>None\<close>.
\<close>

record base_credential =
  tenant_id :: pyval
  additionally_allowed_tenants :: "string list"
  client_applications :: "string \<rightharpoonup> nat"
  cae_client_applications :: "string \<rightharpoonup> nat"
  cache :: "nat option"
  cae_cache :: "nat option"
  client_id :: pyval
  client_credential :: pyval
  authority :: string
  regional_authority :: pyval
  client :: pyval
  instance_discovery :: pyval
  enable_support_logging :: pyval
  login_hint :: pyval
  timeout :: pyval
  parsed_url :: "parsed_url option"

record credential = base_credential +
  parent_window_handle :: pyval
  enable_msa_passthrough :: pyval
  use_operating_system_account :: pyval

text \<open>The calls logged: cache initialisation, construction of an application, and an
  acquisition attempt with the application it was made on, its arguments and its outcome.\<close>

datatype event =
    Initialize_cache bool
  | App_class app_args
  | Acquire_token_interactive nat acquire_args "exn + pydict"

record 'w state =
  self :: credential
  heap :: "obj list"
  world :: 'w
  trace :: "event list"

text \<open>The collaborators that are not part of the file.\<close>

record 'w collaborators =
  resolve_tenant :: "pyval \<Rightarrow> string list \<Rightarrow> pydict \<Rightarrow> exn + string"
  app_class :: "app_args \<Rightarrow> 'w \<Rightarrow> exn option \<times> 'w"
  acquire_token_interactive :: "nat \<Rightarrow> acquire_args \<Rightarrow> 'w \<Rightarrow> (exn + pydict) \<times> 'w"
  within_dac :: "'w \<Rightarrow> bool"

subsection \<open>The constructor (lines 57-61)\<close>

text \<open>The constructor of the base class is a parameter: it receives the keyword arguments
  that are left and yields the base attributes, or raises.\<close>

definition init :: "(pydict \<Rightarrow> exn + base_credential) \<Rightarrow> pydict \<Rightarrow> exn + credential" where
  "init super_init kwargs =
    (let (pwh, kwargs1) = dict_pop kwargs ''parent_window_handle'' PyNone;
         (msa, kwargs2) = dict_pop kwargs1 ''enable_msa_passthrough'' (PyBool False);
         (osa, kwargs3) = dict_pop kwargs2 ''use_operating_system_account'' (PyBool False)
     in case super_init kwargs3 of
          Inl e \<Rightarrow> Inl e
        | Inr b \<Rightarrow> Inr (base_credential.extend b (credential.fields pwh msa osa)))"

subsection \<open>The application registry: \<^verbatim>\<open>_get_app\<close> (lines 111-144)\<close>

text \<open>
  Modelled from the spec: the method \<^verbatim>\<open>_initialize_cache\<close> of the base class is not among
  the sources. The spec describes the token cache as one instance per capability mode,
  created lazily if absent and owned by the credential, and the collaborator as
  \<^verbatim>\<open>initialize_cache(is_cae) -> TokenCache\<close>: a new cache object is allocated, stored in the
  credential's slot of that mode and returned.
\<close>

definition initialize_cache :: "bool \<Rightarrow> 'w state \<Rightarrow> (exn + nat) \<times> 'w state" where
  "initialize_cache is_cae s =
    (let c = length (heap s) in
     (Inr c,
      s\<lparr>heap := heap s @ [TokenCache],
        self := (if is_cae then (self s)\<lparr>cae_cache := Some c\<rparr> else (self s)\<lparr>cache := Some c\<rparr>),
        trace := trace s @ [Initialize_cache is_cae]\<rparr>))"

text \<open>Lines 116-118 and 122-128: the token cache of the mode, initialised when the test
  \<^verbatim>\<open>not token_cache\<close> succeeds, which it does for an empty slot; a cache object counts as
  true.\<close>

definition token_cache_for :: "bool \<Rightarrow> 'w state \<Rightarrow> (exn + nat) \<times> 'w state" where
  "token_cache_for enable_cae s =
    (case (if enable_cae then cae_cache (self s) else cache (self s)) of
       None \<Rightarrow> initialize_cache enable_cae s
     | Some c \<Rightarrow> (Inr c, s))"

text \<open>Lines 116 and 123: the application map of the mode.\<close>

definition applications_map :: "bool \<Rightarrow> credential \<Rightarrow> (string \<rightharpoonup> nat)" where
  "applications_map enable_cae c =
    (if enable_cae then cae_client_applications c else client_applications c)"

text \<open>Lines 131-142: a new application is constructed and stored under the tenant.\<close>

definition new_application ::
  "'w collaborators \<Rightarrow> bool \<Rightarrow> string list option \<Rightarrow> string \<Rightarrow> nat \<Rightarrow> 'w state
     \<Rightarrow> (exn + nat) \<times> 'w state" where
  "new_application env enable_cae capabilities tid token_cache s =
    (let args = \<lparr>app_client_id = client_id (self s),
                 app_client_credential = client_credential (self s),
                 app_client_capabilities = capabilities,
                 app_authority = authority (self s) @ ''/'' @ tid,
                 app_azure_region = regional_authority (self s),
                 app_token_cache = token_cache,
                 app_http_client = client (self s),
                 app_instance_discovery = instance_discovery (self s),
                 app_enable_broker_on_windows = True,
                 app_enable_pii_log = enable_support_logging (self s)\<rparr>
     in (case app_class env args (world s) of
           (Some e, w) \<Rightarrow> (Inl e, s\<lparr>world := w, trace := trace s @ [App_class args]\<rparr>)
         | (None, w) \<Rightarrow>
             let h = length (heap s);
                 updated = (applications_map enable_cae (self s))(tid \<mapsto> h)
             in (Inr h,
                 s\<lparr>heap := heap s @ [ClientApplication args],
                   self := (if enable_cae
                            then (self s)\<lparr>cae_client_applications := updated\<rparr>
                            else (self s)\<lparr>client_applications := updated\<rparr>),
                   world := w,
                   trace := trace s @ [App_class args]\<rparr>)))"

definition get_app :: "'w collaborators \<Rightarrow> pydict \<Rightarrow> 'w state \<Rightarrow> (exn + nat) \<times> 'w state" where
  "get_app env kwargs s =
    (case resolve_tenant env (tenant_id (self s)) (additionally_allowed_tenants (self s)) kwargs of
       Inl e \<Rightarrow> (Inl e, s)
     | Inr tid \<Rightarrow>
        let enable_cae = truthy (dict_get kwargs ''enable_cae'');
            capabilities = (if enable_cae then Some [''CP1''] else None)
        in (case token_cache_for enable_cae s of
              (Inl e, s1) \<Rightarrow> (Inl e, s1)
            | (Inr token_cache, s1) \<Rightarrow>
               (case applications_map enable_cae (self s1) tid of
                  Some h \<Rightarrow> (Inr h, s1)
                | None \<Rightarrow> new_application env enable_cae capabilities tid token_cache s1)))"

subsection \<open>Token acquisition: \<^verbatim>\<open>_request_token\<close> (lines 63-109)\<close>

text \<open>One call of \<^verbatim>\<open>app.acquire_token_interactive\<close>, logged with its outcome.\<close>

definition call_acquire ::
  "'w collaborators \<Rightarrow> nat \<Rightarrow> acquire_args \<Rightarrow> 'w state \<Rightarrow> (exn + pydict) \<times> 'w state" where
  "call_acquire env app args s =
    (case acquire_token_interactive env app args (world s) of
       (outcome, w) \<Rightarrow>
         (outcome, s\<lparr>world := w, trace := trace s @ [Acquire_token_interactive app args outcome]\<rparr>))"

text \<open>The keyword arguments both attempts pass, up to the prompt.\<close>

definition acquire_kwargs ::
  "credential \<Rightarrow> string list \<Rightarrow> pyval \<Rightarrow> int option \<Rightarrow> prompt \<Rightarrow> acquire_args" where
  "acquire_kwargs c scopes claims port p =
    \<lparr>kw_scopes = scopes,
     kw_login_hint = login_hint c,
     kw_claims_challenge = claims,
     kw_timeout = timeout c,
     kw_prompt = p,
     kw_port = port,
     kw_parent_window_handle = parent_window_handle c,
     kw_enable_msa_passthrough = enable_msa_passthrough c\<rparr>"

text \<open>Line 68: the port of the redirect URL, when one was configured.\<close>

definition port_of :: "credential \<Rightarrow> int option" where
  "port_of c = (case parsed_url c of None \<Rightarrow> None | Some u \<Rightarrow> url_port u)"

text \<open>Lines 97-109: what becomes of the outcome of the interactive attempt, \<open>in_dac\<close> being
  the value of \<^verbatim>\<open>within_dac.get()\<close>.\<close>

definition classify :: "bool \<Rightarrow> exn + pydict \<Rightarrow> exn + pydict" where
  "classify in_dac outcome =
    (case outcome of
       Inl ex \<Rightarrow>
         if is_socket_error ex
         then Inl (CredentialUnavailableError (PyStr ''Couldn't start an HTTP server.'') (Some ex))
         else Inl ex
     | Inr result \<Rightarrow>
         if ''access_token'' \<notin> dom result \<and> ''error_description'' \<in> dom result then
           (if in_dac then
              (case dict_getitem result ''error_description'' of
                 Inl e \<Rightarrow> Inl e
               | Inr m \<Rightarrow> Inl (CredentialUnavailableError m None))
            else Inl (ClientAuthenticationError (dict_get result ''error_description'') None))
         else if ''access_token'' \<notin> dom result then
           (if in_dac then Inl (CredentialUnavailableError (PyStr ''Failed to authenticate user'') None)
            else Inl (ClientAuthenticationError (PyStr ''Failed to authenticate user'') None))
         else Inr result)"

text \<open>Lines 86-109: the interactive attempt and the classification of its outcome.\<close>

definition interactive_attempt ::
  "'w collaborators \<Rightarrow> nat \<Rightarrow> acquire_args \<Rightarrow> 'w state \<Rightarrow> (exn + pydict) \<times> 'w state" where
  "interactive_attempt env app args s =
    (case call_acquire env app args s of
       (outcome, s1) \<Rightarrow> (classify (within_dac env (world s1)) outcome, s1))"

text \<open>The body of the method, lines 65-109.\<close>

definition request_token_body ::
  "'w collaborators \<Rightarrow> string list \<Rightarrow> pydict \<Rightarrow> 'w state \<Rightarrow> (exn + pydict) \<times> 'w state" where
  "request_token_body env scopes kwargs s =
    (let claims = dict_get kwargs ''claims'' in
     case get_app env kwargs s of
       (Inl e, s1) \<Rightarrow> (Inl e, s1)
     | (Inr app, s1) \<Rightarrow>
        let port = port_of (self s1);
            args = acquire_kwargs (self s1) scopes claims port
        in if truthy (use_operating_system_account (self s1)) then
             (case call_acquire env app (args Prompt_NONE) s1 of
                (Inr result, s2) \<Rightarrow>
                  if ''access_token'' \<in> dom result then (Inr result, s2)
                  else interactive_attempt env app (args (Prompt_literal ''select_account'')) s2
              | (Inl ex, s2) \<Rightarrow>
                  if is_socket_error ex
                  then interactive_attempt env app (args (Prompt_literal ''select_account'')) s2
                  else (Inl ex, s2))
           else interactive_attempt env app (args (Prompt_literal ''select_account'')) s1)"

text \<open>
  Modelled from the spec: the decorator \<^verbatim>\<open>wrap_exceptions\<close> of line 63 is imported from
  \<^verbatim>\<open>._utils\<close>, which is not among the sources, so what it does to an exception of the body
  cannot be read off the code. The spec says of the method that the errors it classifies
  reach the caller as classified and that all other exceptions propagate unmodified, not
  reclassified, so the decorator is modelled as handing on the outcome of the function it
  wraps.
\<close>

definition wrap_exceptions :: "('s \<Rightarrow> (exn + 'a) \<times> 's) \<Rightarrow> 's \<Rightarrow> (exn + 'a) \<times> 's" where
  "wrap_exceptions f s = f s"

definition request_token ::
  "'w collaborators \<Rightarrow> string list \<Rightarrow> pydict \<Rightarrow> 'w state \<Rightarrow> (exn + pydict) \<times> 'w state" where
  "request_token env scopes kwargs = wrap_exceptions (request_token_body env scopes kwargs)"

text \<open>The calls a run has added to the log, and the acquisition attempts among them.\<close>

definition calls :: "'w state \<Rightarrow> 'w state \<Rightarrow> event list" where
  "calls s s' = drop (length (trace s)) (trace s')"

fun is_acquire :: "event \<Rightarrow> bool" where
  "is_acquire (Acquire_token_interactive app args outcome) = True"
| "is_acquire e = False"

definition attempts :: "'w state \<Rightarrow> 'w state \<Rightarrow> event list" where
  "attempts s s' = filter is_acquire (calls s s')"

fun is_interactive :: "event \<Rightarrow> bool" where
  "is_interactive (Acquire_token_interactive app args outcome) =
     (kw_prompt args = Prompt_literal ''select_account'')"
| "is_interactive e = False"

definition interactive_calls :: "'w state \<Rightarrow> 'w state \<Rightarrow> event list" where
  "interactive_calls s s' = filter is_interactive (calls s s')"

text \<open>
  The registry is in order when every handle in the two application maps is an address of
  the store and no handle is in both maps. A credential whose maps are empty is in order.
\<close>

definition registry_ok :: "'w state \<Rightarrow> bool" where
  "registry_ok s \<longleftrightarrow>
     (\<forall>t h. client_applications (self s) t = Some h \<longrightarrow> h < length (heap s)) \<and>
     (\<forall>t h. cae_client_applications (self s) t = Some h \<longrightarrow> h < length (heap s)) \<and>
     (\<forall>t t' h. client_applications (self s) t = Some h \<longrightarrow>
        cae_client_applications (self s) t' \<noteq> Some h)"

subsection \<open>A concrete credential and concrete collaborators\<close>

text \<open>
  An instance to run the methods on: a credential for the tenant \<^verbatim>\<open>contoso\<close> with the OS
  account enabled and nothing cached yet, an outside world that counts the calls made to
  it, and collaborators whose acquisition outcomes for the two prompts are given.
\<close>

definition example_base :: base_credential where
  "example_base =
    \<lparr>tenant_id = PyStr ''contoso'',
     additionally_allowed_tenants = [],
     client_applications = Map.empty,
     cae_client_applications = Map.empty,
     cache = None,
     cae_cache = None,
     client_id = PyStr ''04b07795'',
     client_credential = PyNone,
     authority = ''https://login.microsoftonline.com'',
     regional_authority = PyNone,
     client = PyNone,
     instance_discovery = PyNone,
     enable_support_logging = PyBool False,
     login_hint = PyNone,
     timeout = PyInt 300,
     parsed_url = None\<rparr>"

definition example_kwargs :: pydict where
  "example_kwargs =
    [''parent_window_handle'' \<mapsto> PyInt 1000,
     ''use_operating_system_account'' \<mapsto> PyBool True,
     ''tenant_id'' \<mapsto> PyStr ''contoso'']"

definition example_credential :: credential where
  "example_credential =
    base_credential.extend example_base
      (credential.fields (PyInt 1000) (PyBool False) (PyBool True))"

definition example_state :: "nat state" where
  "example_state = \<lparr>self = example_credential, heap = [], world = 0, trace = []\<rparr>"

definition example_env :: "(exn + pydict) \<Rightarrow> (exn + pydict) \<Rightarrow> bool \<Rightarrow> nat collaborators" where
  "example_env os_outcome interactive_outcome in_dac =
    \<lparr>resolve_tenant =
       (\<lambda>tid allowed kwargs. case tid of PyStr t \<Rightarrow> Inr t
                              | _ \<Rightarrow> Inl (Other_exception ''ValueError'' ''tenant'')),
     app_class = (\<lambda>args w. (None, Suc w)),
     acquire_token_interactive =
       (\<lambda>app args w.
          (if kw_prompt args = Prompt_NONE then os_outcome else interactive_outcome, Suc w)),
     within_dac = (\<lambda>w. in_dac)\<rparr>"

definition example_run ::
  "(exn + pydict) \<Rightarrow> (exn + pydict) \<Rightarrow> bool \<Rightarrow> (exn + pydict) \<times> nat state" where
  "example_run os_outcome interactive_outcome in_dac =
    request_token (example_env os_outcome interactive_outcome in_dac)
      [''https://graph.example/.default''] Map.empty example_state"

text \<open>The arguments of the attempts in that run. The cache it initialises is the first
  object of the store and the application it constructs the second, at address 1.\<close>

definition example_args :: "prompt \<Rightarrow> acquire_args" where
  "example_args p =
    acquire_kwargs example_credential [''https://graph.example/.default''] PyNone None p"

section \<open>Properties of the stages\<close>

subsection \<open>The application registry\<close>

lemma token_cache_for_effect:
  assumes "token_cache_for cae s = (r, s1)"
  shows "\<exists>c. r = Inr c \<and> (if cae then cae_cache (self s1) else cache (self s1)) = Some c"
    and "client_applications (self s1) = client_applications (self s)"
    and "cae_client_applications (self s1) = cae_client_applications (self s)"
    and "length (heap s) \<le> length (heap s1)"
    and "world s1 = world s"
    and "cae \<Longrightarrow> cache (self s1) = cache (self s)"
    and "\<not> cae \<Longrightarrow> cae_cache (self s1) = cae_cache (self s)"
    and "trace s1 = trace s \<or> trace s1 = trace s @ [Initialize_cache cae]"
    and "(if cae then cae_cache (self s) else cache (self s)) \<noteq> None \<Longrightarrow> s1 = s"
  using assms
  by (auto simp: token_cache_for_def initialize_cache_def Let_def split: option.splits if_splits)

lemma token_cache_for_keeps:
  assumes "token_cache_for cae s = (r, s1)"
  shows "login_hint (self s1) = login_hint (self s) \<and> timeout (self s1) = timeout (self s) \<and>
   parsed_url (self s1) = parsed_url (self s) \<and>
   parent_window_handle (self s1) = parent_window_handle (self s) \<and>
   enable_msa_passthrough (self s1) = enable_msa_passthrough (self s) \<and>
   use_operating_system_account (self s1) = use_operating_system_account (self s) \<and>
   authority (self s1) = authority (self s) \<and> tenant_id (self s1) = tenant_id (self s) \<and>
   additionally_allowed_tenants (self s1) = additionally_allowed_tenants (self s)"
  using assms
  by (auto simp: token_cache_for_def initialize_cache_def Let_def split: option.splits if_splits)

lemma new_application_keeps:
  assumes "new_application env cae caps tid tc s = (r, s1)"
  shows "login_hint (self s1) = login_hint (self s) \<and> timeout (self s1) = timeout (self s) \<and>
   parsed_url (self s1) = parsed_url (self s) \<and>
   parent_window_handle (self s1) = parent_window_handle (self s) \<and>
   enable_msa_passthrough (self s1) = enable_msa_passthrough (self s) \<and>
   use_operating_system_account (self s1) = use_operating_system_account (self s) \<and>
   cache (self s1) = cache (self s) \<and> cae_cache (self s1) = cae_cache (self s) \<and>
   tenant_id (self s1) = tenant_id (self s) \<and>
   additionally_allowed_tenants (self s1) = additionally_allowed_tenants (self s)"
  using assms
  by (auto simp: new_application_def Let_def split: option.splits prod.splits if_splits)

lemma new_application_effect:
  assumes "new_application env cae caps tid tc s = (r, s1)"
  shows "\<exists>args. trace s1 = trace s @ [App_class args] \<and>
      app_client_capabilities args = caps \<and> app_authority args = authority (self s) @ ''/'' @ tid \<and>
      app_token_cache args = tc \<and> app_enable_broker_on_windows args \<and>
      ((\<exists>e. r = Inl e \<and> self s1 = self s \<and> heap s1 = heap s) \<or>
       (r = Inr (length (heap s)) \<and> heap s1 = heap s @ [ClientApplication args] \<and>
        applications_map cae (self s1) = (applications_map cae (self s))(tid \<mapsto> length (heap s)) \<and>
        applications_map (\<not> cae) (self s1) = applications_map (\<not> cae) (self s)))"
  using assms
  by (auto simp: new_application_def applications_map_def Let_def
      split: option.splits prod.splits if_splits)

lemma get_app_cases [consumes 1, case_names unresolved found new]:
  assumes run: "get_app env kwargs s = (r, s')"
  obtains
    (unresolved) e where
      "resolve_tenant env (tenant_id (self s)) (additionally_allowed_tenants (self s)) kwargs = Inl e"
      "r = Inl e" "s' = s"
  | (found) tid c h where
      "resolve_tenant env (tenant_id (self s)) (additionally_allowed_tenants (self s)) kwargs = Inr tid"
      "token_cache_for (truthy (dict_get kwargs ''enable_cae'')) s = (Inr c, s')"
      "applications_map (truthy (dict_get kwargs ''enable_cae'')) (self s') tid = Some h"
      "r = Inr h"
  | (new) tid c s1 where
      "resolve_tenant env (tenant_id (self s)) (additionally_allowed_tenants (self s)) kwargs = Inr tid"
      "token_cache_for (truthy (dict_get kwargs ''enable_cae'')) s = (Inr c, s1)"
      "applications_map (truthy (dict_get kwargs ''enable_cae'')) (self s1) tid = None"
      "new_application env (truthy (dict_get kwargs ''enable_cae''))
         (if truthy (dict_get kwargs ''enable_cae'') then Some [''CP1''] else None) tid c s1 = (r, s')"
proof (cases "resolve_tenant env (tenant_id (self s)) (additionally_allowed_tenants (self s)) kwargs")
  case (Inl e)
  with run have "r = Inl e" "s' = s" by (simp_all add: get_app_def)
  with Inl show ?thesis by (rule unresolved)
next
  case (Inr tid)
  obtain r1 s1 where tc: "token_cache_for (truthy (dict_get kwargs ''enable_cae'')) s = (r1, s1)"
    by (cases "token_cache_for (truthy (dict_get kwargs ''enable_cae'')) s")
  from token_cache_for_effect(1) [OF tc] obtain c where c: "r1 = Inr c" by blast
  show ?thesis
  proof (cases "applications_map (truthy (dict_get kwargs ''enable_cae'')) (self s1) tid")
    case None
    with run Inr tc c
    have "new_application env (truthy (dict_get kwargs ''enable_cae''))
         (if truthy (dict_get kwargs ''enable_cae'') then Some [''CP1''] else None) tid c s1 = (r, s')"
      by (simp add: get_app_def Let_def)
    with Inr tc c None show ?thesis by (auto intro: new)
  next
    case (Some h)
    with run Inr tc c have "r = Inr h" "s' = s1" by (simp_all add: get_app_def Let_def)
    with Inr tc c Some show ?thesis by (auto intro: found)
  qed
qed

lemma get_app_trace:
  assumes "get_app env kwargs s = (r, s1)"
  shows "\<exists>es. trace s1 = trace s @ es \<and> filter is_acquire es = []"
  using assms
proof (cases rule: get_app_cases)
  case (unresolved e)
  then show ?thesis by simp
next
  case (found tid c h)
  from token_cache_for_effect(8) [OF found(2)] show ?thesis by auto
next
  case (new tid c s0)
  from token_cache_for_effect(8) [OF new(2)] new_application_effect [OF new(4)]
  show ?thesis by auto
qed

lemma get_app_keeps:
  assumes "get_app env kwargs s = (r, s1)"
  shows "login_hint (self s1) = login_hint (self s) \<and> timeout (self s1) = timeout (self s) \<and>
   parsed_url (self s1) = parsed_url (self s) \<and>
   parent_window_handle (self s1) = parent_window_handle (self s) \<and>
   enable_msa_passthrough (self s1) = enable_msa_passthrough (self s) \<and>
   use_operating_system_account (self s1) = use_operating_system_account (self s) \<and>
   tenant_id (self s1) = tenant_id (self s) \<and>
   additionally_allowed_tenants (self s1) = additionally_allowed_tenants (self s)"
  using assms
proof (cases rule: get_app_cases)
  case (unresolved e)
  then show ?thesis by simp
next
  case (found tid c h)
  from token_cache_for_keeps [OF found(2)] show ?thesis by simp
next
  case (new tid c s0)
  from token_cache_for_keeps [OF new(2)] new_application_keeps [OF new(4)]
  show ?thesis by simp
qed

lemma get_app_within_dac [simp]: "get_app (env\<lparr>within_dac := d\<rparr>) kwargs s = get_app env kwargs s"
  by (auto simp: get_app_def new_application_def Let_def split: sum.splits option.splits prod.splits)

lemma get_app_stored:
  assumes "get_app env kwargs s = (Inr h, s1)"
  shows "\<exists>tid c.
    resolve_tenant env (tenant_id (self s)) (additionally_allowed_tenants (self s)) kwargs = Inr tid \<and>
    applications_map (truthy (dict_get kwargs ''enable_cae'')) (self s1) tid = Some h \<and>
    (if truthy (dict_get kwargs ''enable_cae'') then cae_cache (self s1) else cache (self s1)) = Some c"
  using assms
proof (cases rule: get_app_cases)
  case (unresolved e)
  then show ?thesis by simp
next
  case (found tid c h')
  from token_cache_for_effect(1) [OF found(2)] found show ?thesis by auto
next
  case (new tid c s0)
  from token_cache_for_effect(1) [OF new(2)] new_application_keeps [OF new(4)]
    new_application_effect [OF new(4)] new(1)
  show ?thesis by (auto split: if_splits)
qed

lemma get_app_again:
  assumes first: "get_app env kwargs s = (Inr h, s1)"
    and same_tenant: "resolve_tenant env (tenant_id (self s)) (additionally_allowed_tenants (self s)) kwargs' =
       resolve_tenant env (tenant_id (self s)) (additionally_allowed_tenants (self s)) kwargs"
    and same_mode: "truthy (dict_get kwargs' ''enable_cae'') = truthy (dict_get kwargs ''enable_cae'')"
  shows "get_app env kwargs' s1 = (Inr h, s1)"
proof -
  from get_app_stored [OF first] obtain tid c where
    st: "resolve_tenant env (tenant_id (self s)) (additionally_allowed_tenants (self s)) kwargs = Inr tid"
      "applications_map (truthy (dict_get kwargs ''enable_cae'')) (self s1) tid = Some h"
      "(if truthy (dict_get kwargs ''enable_cae'') then cae_cache (self s1) else cache (self s1)) = Some c"
    by blast
  from st(3) have "token_cache_for (truthy (dict_get kwargs ''enable_cae'')) s1 = (Inr c, s1)"
    by (simp add: token_cache_for_def)
  with st same_tenant same_mode get_app_keeps [OF first] show ?thesis
    by (simp add: get_app_def Let_def)
qed

lemma get_app_maps:
  assumes "get_app env kwargs s = (r, s')"
  shows "length (heap s) \<le> length (heap s') \<and>
    applications_map (\<not> truthy (dict_get kwargs ''enable_cae'')) (self s') =
      applications_map (\<not> truthy (dict_get kwargs ''enable_cae'')) (self s) \<and>
    (applications_map (truthy (dict_get kwargs ''enable_cae'')) (self s') =
       applications_map (truthy (dict_get kwargs ''enable_cae'')) (self s) \<or>
     (\<exists>tid h. r = Inr h \<and> length (heap s) \<le> h \<and> h < length (heap s') \<and>
        applications_map (truthy (dict_get kwargs ''enable_cae'')) (self s) tid = None \<and>
        applications_map (truthy (dict_get kwargs ''enable_cae'')) (self s') =
          (applications_map (truthy (dict_get kwargs ''enable_cae'')) (self s))(tid \<mapsto> h)))"
  using assms
proof (cases rule: get_app_cases)
  case (unresolved e)
  then show ?thesis by simp
next
  case (found tid c h)
  from token_cache_for_effect(2,3,4) [OF found(2)] show ?thesis
    by (simp add: applications_map_def)
next
  case (new tid c s0)
  note tc = token_cache_for_effect(2,3,4) [OF new(2)]
  note na = new_application_effect [OF new(4)]
  have eq: "applications_map b (self s0) = applications_map b (self s)" for b
    using tc by (simp add: applications_map_def)
  from na new(3) tc(3) show ?thesis by (auto simp: eq)
qed

subsection \<open>Token acquisition\<close>

lemma call_acquire_eq:
  "call_acquire env app args s = (out, s2) \<Longrightarrow>
   trace s2 = trace s @ [Acquire_token_interactive app args out] \<and> self s2 = self s \<and>
   heap s2 = heap s"
  by (auto simp: call_acquire_def split: prod.splits)

lemma interactive_attempt_eq:
  "interactive_attempt env app args s = (out, s') \<Longrightarrow>
   \<exists>o2. trace s' = trace s @ [Acquire_token_interactive app args o2] \<and>
        out = classify (within_dac env (world s')) o2 \<and> self s' = self s \<and> heap s' = heap s"
  by (auto simp: interactive_attempt_def call_acquire_def split: prod.splits)

lemma attempts_append:
  "trace s1 = trace s @ es \<Longrightarrow> filter is_acquire es = [] \<Longrightarrow> trace s' = trace s1 @ fs \<Longrightarrow>
   attempts s s' = filter is_acquire fs"
  by (simp add: attempts_def calls_def)

lemma kw_prompt_acquire_kwargs [simp]: "kw_prompt (acquire_kwargs c scopes claims port p) = p"
  by (simp add: acquire_kwargs_def)

lemma acquire_kwargs_prompt [simp]:
  "(acquire_kwargs c scopes claims port p)\<lparr>kw_prompt := q\<rparr> = acquire_kwargs c scopes claims port q"
  by (simp add: acquire_kwargs_def)

lemma interactive_calls_attempts:
  "interactive_calls s s' = filter is_interactive (attempts s s')"
proof -
  have "(is_acquire e \<and> is_interactive e) = is_interactive e" for e
    by (cases e) auto
  then show ?thesis by (simp add: interactive_calls_def attempts_def)
qed

lemma request_token_paths:
  assumes run: "request_token env scopes kwargs s = (out, s')"
  shows "(\<exists>e. get_app env kwargs s = (Inl e, s') \<and> out = Inl e \<and> attempts s s' = [])
    \<or> (\<exists>app s1 args.
          get_app env kwargs s = (Inr app, s1) \<and> self s' = self s1 \<and> heap s' = heap s1 \<and>
          args = acquire_kwargs (self s) scopes (dict_get kwargs ''claims'') (port_of (self s)) \<and>
          ((truthy (use_operating_system_account (self s)) \<and>
            (\<exists>result. ''access_token'' \<in> dom result \<and> out = Inr result \<and>
               attempts s s' = [Acquire_token_interactive app (args Prompt_NONE) (Inr result)]))
         \<or> (truthy (use_operating_system_account (self s)) \<and>
            (\<exists>ex. \<not> is_socket_error ex \<and> out = Inl ex \<and>
               attempts s s' = [Acquire_token_interactive app (args Prompt_NONE) (Inl ex)]))
         \<or> (truthy (use_operating_system_account (self s)) \<and>
            (\<exists>o1 o2. ((\<exists>ex. o1 = Inl ex \<and> is_socket_error ex) \<or>
                      (\<exists>result. o1 = Inr result \<and> ''access_token'' \<notin> dom result)) \<and>
               out = classify (within_dac env (world s')) o2 \<and>
               attempts s s' =
                 [Acquire_token_interactive app (args Prompt_NONE) o1,
                  Acquire_token_interactive app (args (Prompt_literal ''select_account'')) o2]))
         \<or> (\<not> truthy (use_operating_system_account (self s)) \<and>
            (\<exists>o2. out = classify (within_dac env (world s')) o2 \<and>
               attempts s s' =
                 [Acquire_token_interactive app (args (Prompt_literal ''select_account'')) o2]))))"
proof (cases "get_app env kwargs s")
  case (Pair r s1)
  from get_app_trace [OF Pair] obtain es
    where es: "trace s1 = trace s @ es" "filter is_acquire es = []" by blast
  note keep = get_app_keeps [OF Pair]
  let ?args = "acquire_kwargs (self s) scopes (dict_get kwargs ''claims'') (port_of (self s))"
  show ?thesis
  proof (cases r)
    case (Inl e)
    with run Pair es show ?thesis
      by (auto simp: request_token_def wrap_exceptions_def request_token_body_def Let_def
          attempts_def calls_def)
  next
    case (Inr app)
    have args: "acquire_kwargs (self s1) scopes (dict_get kwargs ''claims'') (port_of (self s1))
      = ?args"
      using keep by (simp add: acquire_kwargs_def port_of_def fun_eq_iff)
    show ?thesis
    proof (cases "truthy (use_operating_system_account (self s))")
      case False
      with run Pair Inr keep args
      have ia: "interactive_attempt env app (?args (Prompt_literal ''select_account'')) s1 = (out, s')"
        by (simp add: request_token_def wrap_exceptions_def request_token_body_def Let_def)
      from interactive_attempt_eq [OF ia] obtain o2 where
        o2: "trace s' = trace s1 @
               [Acquire_token_interactive app (?args (Prompt_literal ''select_account'')) o2]"
          "out = classify (within_dac env (world s')) o2" "self s' = self s1" "heap s' = heap s1"
        by blast
      from attempts_append [OF es o2(1)] o2 False Pair Inr show ?thesis by simp
    next
      case True
      obtain o1 s2 where ca: "call_acquire env app (?args Prompt_NONE) s1 = (o1, s2)"
        by (cases "call_acquire env app (?args Prompt_NONE) s1")
      from call_acquire_eq [OF ca]
      have fs: "trace s2 = trace s1 @ [Acquire_token_interactive app (?args Prompt_NONE) o1]"
        "self s2 = self s1" "heap s2 = heap s1" by simp_all
      show ?thesis
      proof (cases "(\<exists>ex. o1 = Inl ex \<and> is_socket_error ex) \<or>
                      (\<exists>result. o1 = Inr result \<and> ''access_token'' \<notin> dom result)")
        case fall: True
        have ia: "interactive_attempt env app (?args (Prompt_literal ''select_account'')) s2 = (out, s')"
        proof (cases o1)
          case (Inl ex)
          with fall have "is_socket_error ex" by simp
          with run Pair Inr keep args True ca Inl show ?thesis
            by (simp add: request_token_def wrap_exceptions_def request_token_body_def Let_def)
        next
          case r: (Inr result)
          with fall have "''access_token'' \<notin> dom result" by simp
          with run Pair Inr keep args True ca r show ?thesis
            by (simp add: request_token_def wrap_exceptions_def request_token_body_def Let_def)
        qed
        from interactive_attempt_eq [OF ia] obtain o2 where
          o2: "trace s' = trace s2 @
                 [Acquire_token_interactive app (?args (Prompt_literal ''select_account'')) o2]"
            "out = classify (within_dac env (world s')) o2" "self s' = self s2" "heap s' = heap s2"
          by blast
        have "trace s' = trace s1 @
          [Acquire_token_interactive app (?args Prompt_NONE) o1,
           Acquire_token_interactive app (?args (Prompt_literal ''select_account'')) o2]"
          using fs(1) o2(1) by simp
        from attempts_append [OF es this] o2 fs True Pair Inr fall show ?thesis by auto
      next
        case stop: False
        with run Pair Inr keep args True ca
        have fin: "out = o1" "s' = s2"
          by (auto simp: request_token_def wrap_exceptions_def request_token_body_def Let_def
              split: sum.splits if_splits)
        from attempts_append [OF es fs(1)] fin fs True Pair Inr stop show ?thesis
          by (cases o1) auto
      qed
    qed
  qed
qed

lemma call_acquire_within_dac [simp]:
  "call_acquire (env\<lparr>within_dac := d\<rparr>) app args s = call_acquire env app args s"
  by (simp add: call_acquire_def)

lemma request_token_within_dac:
  "snd (request_token (env\<lparr>within_dac := d\<rparr>) scopes kwargs s) = snd (request_token env scopes kwargs s)"
  by (simp add: request_token_def wrap_exceptions_def request_token_body_def interactive_attempt_def
      Let_def split: prod.splits sum.splits)

lemma init_fields:
  "init super_init kwargs = Inr c \<Longrightarrow>
     parent_window_handle c = fst (dict_pop kwargs ''parent_window_handle'' PyNone) \<and>
     enable_msa_passthrough c = fst (dict_pop kwargs ''enable_msa_passthrough'' (PyBool False)) \<and>
     use_operating_system_account c =
       fst (dict_pop kwargs ''use_operating_system_account'' (PyBool False))"
  by (auto simp: init_def dict_pop_def Let_def base_credential.extend_def credential.fields_def
      split: prod.splits sum.splits option.splits)

lemma request_token_keeps:
  assumes run: "request_token env scopes kwargs s = (out, s')"
  shows "parent_window_handle (self s') = parent_window_handle (self s) \<and>
     enable_msa_passthrough (self s') = enable_msa_passthrough (self s) \<and>
     use_operating_system_account (self s') = use_operating_system_account (self s)"
  using request_token_paths [OF run] by (auto dest: get_app_keeps)

lemma get_app_registry_ok:
  assumes run: "get_app env kwargs s = (r, s')" and ok: "registry_ok s"
  shows "registry_ok s'"
proof (cases "truthy (dict_get kwargs ''enable_cae'')")
  case True
  with get_app_maps [OF run] ok show ?thesis
    by (fastforce simp: registry_ok_def applications_map_def split: if_splits)
next
  case False
  with get_app_maps [OF run] ok show ?thesis
    by (fastforce simp: registry_ok_def applications_map_def split: if_splits)
qed

section \<open>The claims of the specification\<close>

lemmas example_defs =
  example_run_def example_env_def example_state_def example_credential_def example_base_def
  example_args_def base_credential.extend_def credential.fields_def
  request_token_def wrap_exceptions_def request_token_body_def get_app_def token_cache_for_def
  applications_map_def new_application_def initialize_cache_def Let_def dict_get_def
  dict_getitem_def call_acquire_def interactive_attempt_def classify_def acquire_kwargs_def
  port_of_def attempts_def calls_def interactive_calls_def

text \<open>
  Claim C1, as the code has it. Whatever result the interactive attempt returns is
  classified by three rules: a result with \<^verbatim>\<open>access_token\<close> is returned; a result without it but
  with \<^verbatim>\<open>error_description\<close> raises \<^verbatim>\<open>CredentialUnavailableError\<close> inside a chained credential
  and \<^verbatim>\<open>ClientAuthenticationError\<close> otherwise, with the description as message; a result with
  neither raises the same two errors with the message \<^verbatim>\<open>Failed to authenticate user\<close>, written
  with a capital F.
\<close>

theorem interactive_result_classified:
  assumes run: "request_token env scopes kwargs s = (out, s')"
    and ev: "Acquire_token_interactive app args (Inr result) \<in> set (attempts s s')"
    and pr: "kw_prompt args = Prompt_literal ''select_account''"
  shows "(''access_token'' \<in> dom result \<longrightarrow> out = Inr result) \<and>
    (''access_token'' \<notin> dom result \<longrightarrow>
       (\<forall>d. result ''error_description'' = Some d \<longrightarrow>
          out = Inl (if within_dac env (world s') then CredentialUnavailableError d None
                     else ClientAuthenticationError d None))) \<and>
    (''access_token'' \<notin> dom result \<and> ''error_description'' \<notin> dom result \<longrightarrow>
       out = Inl (if within_dac env (world s')
                  then CredentialUnavailableError (PyStr ''Failed to authenticate user'') None
                  else ClientAuthenticationError (PyStr ''Failed to authenticate user'') None))"
proof -
  from request_token_paths [OF run] ev pr
  have "out = classify (within_dac env (world s')) (Inr result)" by auto
  then show ?thesis by (auto simp: classify_def dict_get_def dict_getitem_def)
qed

theorem interactive_result_classified_witness:
  "fst (example_run (Inl (Socket_error ''no broker'')) (Inr [''access_token'' \<mapsto> PyStr ''abc'']) True)
     = Inr [''access_token'' \<mapsto> PyStr ''abc''] \<and>
   fst (example_run (Inl (Socket_error ''no broker''))
          (Inr [''error'' \<mapsto> PyStr ''access_denied'', ''error_description'' \<mapsto> PyStr ''declined'']) True)
     = Inl (CredentialUnavailableError (PyStr ''declined'') None) \<and>
   fst (example_run (Inl (Socket_error ''no broker''))
          (Inr [''error'' \<mapsto> PyStr ''access_denied'', ''error_description'' \<mapsto> PyStr ''declined'']) False)
     = Inl (ClientAuthenticationError (PyStr ''declined'') None) \<and>
   fst (example_run (Inl (Socket_error ''no broker'')) (Inr Map.empty) True)
     = Inl (CredentialUnavailableError (PyStr ''Failed to authenticate user'') None)"
  using
    interactive_result_classified [where env = "example_env (Inl (Socket_error ''no broker''))
        (Inr [''access_token'' \<mapsto> PyStr ''abc'']) True"
      and scopes = "[''https://graph.example/.default'']" and kwargs = Map.empty
      and s = example_state
      and out = "fst (example_run (Inl (Socket_error ''no broker''))
        (Inr [''access_token'' \<mapsto> PyStr ''abc'']) True)"
      and s' = "snd (example_run (Inl (Socket_error ''no broker''))
        (Inr [''access_token'' \<mapsto> PyStr ''abc'']) True)"
      and app = 1 and args = "example_args (Prompt_literal ''select_account'')"
      and result = "[''access_token'' \<mapsto> PyStr ''abc'']"]
    interactive_result_classified [where env = "example_env (Inl (Socket_error ''no broker''))
        (Inr [''error'' \<mapsto> PyStr ''access_denied'', ''error_description'' \<mapsto> PyStr ''declined'']) True"
      and scopes = "[''https://graph.example/.default'']" and kwargs = Map.empty
      and s = example_state
      and out = "fst (example_run (Inl (Socket_error ''no broker''))
        (Inr [''error'' \<mapsto> PyStr ''access_denied'', ''error_description'' \<mapsto> PyStr ''declined'']) True)"
      and s' = "snd (example_run (Inl (Socket_error ''no broker''))
        (Inr [''error'' \<mapsto> PyStr ''access_denied'', ''error_description'' \<mapsto> PyStr ''declined'']) True)"
      and app = 1 and args = "example_args (Prompt_literal ''select_account'')"
      and result = "[''error'' \<mapsto> PyStr ''access_denied'', ''error_description'' \<mapsto> PyStr ''declined'']"]
    interactive_result_classified [where env = "example_env (Inl (Socket_error ''no broker''))
        (Inr [''error'' \<mapsto> PyStr ''access_denied'', ''error_description'' \<mapsto> PyStr ''declined'']) False"
      and scopes = "[''https://graph.example/.default'']" and kwargs = Map.empty
      and s = example_state
      and out = "fst (example_run (Inl (Socket_error ''no broker''))
        (Inr [''error'' \<mapsto> PyStr ''access_denied'', ''error_description'' \<mapsto> PyStr ''declined'']) False)"
      and s' = "snd (example_run (Inl (Socket_error ''no broker''))
        (Inr [''error'' \<mapsto> PyStr ''access_denied'', ''error_description'' \<mapsto> PyStr ''declined'']) False)"
      and app = 1 and args = "example_args (Prompt_literal ''select_account'')"
      and result = "[''error'' \<mapsto> PyStr ''access_denied'', ''error_description'' \<mapsto> PyStr ''declined'']"]
    interactive_result_classified [where env = "example_env (Inl (Socket_error ''no broker''))
        (Inr Map.empty) True"
      and scopes = "[''https://graph.example/.default'']" and kwargs = Map.empty
      and s = example_state
      and out = "fst (example_run (Inl (Socket_error ''no broker'')) (Inr Map.empty) True)"
      and s' = "snd (example_run (Inl (Socket_error ''no broker'')) (Inr Map.empty) True)"
      and app = 1 and args = "example_args (Prompt_literal ''select_account'')"
      and result = Map.empty]
  by (simp add: example_defs)

text \<open>
  The claim quotes the generic message in lower case. Outside a chain, with an interactive
  attempt that returns an empty result, the error raised carries the capitalised message
  and so differs from the one the claim names.
\<close>

theorem generic_message_counterexample:
  "attempts example_state (snd (example_run (Inl (Socket_error ''no broker'')) (Inr Map.empty) False)) =
     [Acquire_token_interactive 1 (example_args Prompt_NONE) (Inl (Socket_error ''no broker'')),
      Acquire_token_interactive 1 (example_args (Prompt_literal ''select_account'')) (Inr Map.empty)] \<and>
   fst (example_run (Inl (Socket_error ''no broker'')) (Inr Map.empty) False) =
     Inl (ClientAuthenticationError (PyStr ''Failed to authenticate user'') None) \<and>
   fst (example_run (Inl (Socket_error ''no broker'')) (Inr Map.empty) False) \<noteq>
     Inl (ClientAuthenticationError (PyStr ''failed to authenticate user'') None)"
  by (simp add: example_defs)

text \<open>
  Claim C2. When the OS account is enabled and the attempt made with the prompt
  \<^verbatim>\<open>msal.Prompt.NONE\<close> returns a result that has \<^verbatim>\<open>access_token\<close>, the method returns that
  result and makes no attempt with the prompt \<^verbatim>\<open>select_account\<close>: the OS-account attempt is
  the only acquisition call of the run.
\<close>

theorem os_account_token_returned:
  assumes run: "request_token env scopes kwargs s = (out, s')"
    and os: "truthy (use_operating_system_account (self s))"
    and ev: "Acquire_token_interactive app args (Inr result) \<in> set (attempts s s')"
    and pr: "kw_prompt args = Prompt_NONE"
    and tok: "''access_token'' \<in> dom result"
  shows "out = Inr result \<and> interactive_calls s s' = [] \<and>
         attempts s s' = [Acquire_token_interactive app args (Inr result)]"
  using request_token_paths [OF run] ev pr tok
  by (auto simp: interactive_calls_attempts)

theorem os_account_token_returned_witness:
  "fst (example_run (Inr [''access_token'' \<mapsto> PyStr ''abc'']) (Inl (Socket_error ''port in use'')) False)
     = Inr [''access_token'' \<mapsto> PyStr ''abc''] \<and>
   interactive_calls example_state
     (snd (example_run (Inr [''access_token'' \<mapsto> PyStr ''abc''])
        (Inl (Socket_error ''port in use'')) False)) = []"
  using os_account_token_returned [where
      env = "example_env (Inr [''access_token'' \<mapsto> PyStr ''abc'']) (Inl (Socket_error ''port in use'')) False"
      and scopes = "[''https://graph.example/.default'']" and kwargs = Map.empty
      and s = example_state
      and out = "fst (example_run (Inr [''access_token'' \<mapsto> PyStr ''abc''])
        (Inl (Socket_error ''port in use'')) False)"
      and s' = "snd (example_run (Inr [''access_token'' \<mapsto> PyStr ''abc''])
        (Inl (Socket_error ''port in use'')) False)"
      and app = 1 and args = "example_args Prompt_NONE"
      and result = "[''access_token'' \<mapsto> PyStr ''abc'']"]
  by (simp add: example_defs)

text \<open>
  Claim C3. When the OS account is enabled and the OS-account attempt raises a
  \<^verbatim>\<open>socket.error\<close>, the error is dropped: the run makes exactly one further acquisition
  call, the interactive one with the same arguments and the prompt \<^verbatim>\<open>select_account\<close>, and what
  the method returns or raises is the classification of that call's outcome.
\<close>

theorem os_socket_error_falls_through:
  assumes run: "request_token env scopes kwargs s = (out, s')"
    and os: "truthy (use_operating_system_account (self s))"
    and ev: "Acquire_token_interactive app args (Inl ex) \<in> set (attempts s s')"
    and pr: "kw_prompt args = Prompt_NONE"
    and sock: "is_socket_error ex"
  shows "\<exists>outcome.
           attempts s s' =
             [Acquire_token_interactive app args (Inl ex),
              Acquire_token_interactive app (args\<lparr>kw_prompt := Prompt_literal ''select_account''\<rparr>) outcome] \<and>
           interactive_calls s s' =
             [Acquire_token_interactive app (args\<lparr>kw_prompt := Prompt_literal ''select_account''\<rparr>) outcome] \<and>
           out = classify (within_dac env (world s')) outcome"
  using request_token_paths [OF run] ev pr sock
  by (auto simp: interactive_calls_attempts)

theorem os_socket_error_falls_through_witness:
  "length (interactive_calls example_state
     (snd (example_run (Inl (Socket_error ''no broker'')) (Inr [''access_token'' \<mapsto> PyStr ''abc'']) False))) = 1 \<and>
   fst (example_run (Inl (Socket_error ''no broker'')) (Inr [''access_token'' \<mapsto> PyStr ''abc'']) False)
     = Inr [''access_token'' \<mapsto> PyStr ''abc'']"
  using os_socket_error_falls_through [where
      env = "example_env (Inl (Socket_error ''no broker'')) (Inr [''access_token'' \<mapsto> PyStr ''abc'']) False"
      and scopes = "[''https://graph.example/.default'']" and kwargs = Map.empty
      and s = example_state
      and out = "fst (example_run (Inl (Socket_error ''no broker''))
        (Inr [''access_token'' \<mapsto> PyStr ''abc'']) False)"
      and s' = "snd (example_run (Inl (Socket_error ''no broker''))
        (Inr [''access_token'' \<mapsto> PyStr ''abc'']) False)"
      and app = 1 and args = "example_args Prompt_NONE"
      and ex = "Socket_error ''no broker''"]
  by (simp add: example_defs)

text \<open>
  Claim C4. When the interactive attempt raises a \<^verbatim>\<open>socket.error\<close>, the method raises
  \<^verbatim>\<open>CredentialUnavailableError\<close> with the message \<^verbatim>\<open>Couldn't start an HTTP server.\<close>, raised from
  the socket error, and does so whatever \<^verbatim>\<open>within_dac\<close> reads: replacing the context variable
  by any other leaves the error the same.
\<close>

theorem interactive_socket_error_unavailable:
  assumes run: "request_token env scopes kwargs s = (out, s')"
    and ev: "Acquire_token_interactive app args (Inl ex) \<in> set (attempts s s')"
    and pr: "kw_prompt args = Prompt_literal ''select_account''"
    and sock: "is_socket_error ex"
  shows "out = Inl (CredentialUnavailableError (PyStr ''Couldn't start an HTTP server.'') (Some ex)) \<and>
    (\<forall>d. fst (request_token (env\<lparr>within_dac := d\<rparr>) scopes kwargs s) =
       Inl (CredentialUnavailableError (PyStr ''Couldn't start an HTTP server.'') (Some ex)))"
proof -
  have main: "out' = Inl (CredentialUnavailableError (PyStr ''Couldn't start an HTTP server.'') (Some ex))"
    if r: "request_token env' scopes kwargs s = (out', s')" for env' :: "'a collaborators" and out'
    using request_token_paths [OF r] ev pr sock by (auto simp: classify_def)
  have "fst (request_token (env\<lparr>within_dac := d\<rparr>) scopes kwargs s) =
       Inl (CredentialUnavailableError (PyStr ''Couldn't start an HTTP server.'') (Some ex))" for d
  proof -
    have "snd (request_token (env\<lparr>within_dac := d\<rparr>) scopes kwargs s) = s'"
      using request_token_within_dac [where env = env and d = d and s = s] run by simp
    then have "request_token (env\<lparr>within_dac := d\<rparr>) scopes kwargs s =
      (fst (request_token (env\<lparr>within_dac := d\<rparr>) scopes kwargs s), s')"
      by (metis prod.collapse)
    from main [OF this] show ?thesis .
  qed
  with main [OF run] show ?thesis by blast
qed

theorem interactive_socket_error_unavailable_witness:
  "fst (example_run (Inr Map.empty) (Inl (Socket_error ''port in use'')) False)
     = Inl (CredentialUnavailableError (PyStr ''Couldn't start an HTTP server.'')
         (Some (Socket_error ''port in use''))) \<and>
   fst (example_run (Inr Map.empty) (Inl (Socket_error ''port in use'')) True)
     = Inl (CredentialUnavailableError (PyStr ''Couldn't start an HTTP server.'')
         (Some (Socket_error ''port in use'')))"
proof -
  let ?env = "example_env (Inr Map.empty) (Inl (Socket_error ''port in use'')) False"
  let ?run = "example_run (Inr Map.empty) (Inl (Socket_error ''port in use'')) False"
  have run: "request_token ?env [''https://graph.example/.default''] Map.empty example_state
      = (fst ?run, snd ?run)"
    by (simp add: example_run_def)
  have ev: "Acquire_token_interactive 1 (example_args (Prompt_literal ''select_account''))
      (Inl (Socket_error ''port in use'')) \<in> set (attempts example_state (snd ?run))"
    by (simp add: example_defs)
  have pr: "kw_prompt (example_args (Prompt_literal ''select_account'')) = Prompt_literal ''select_account''"
    by (simp add: example_args_def)
  have sock: "is_socket_error (Socket_error ''port in use'')" by simp
  note unavailable = interactive_socket_error_unavailable [OF run ev pr sock]
  have chain: "?env\<lparr>within_dac := \<lambda>w. True\<rparr>
      = example_env (Inr Map.empty) (Inl (Socket_error ''port in use'')) True"
    by (simp add: example_env_def)
  from unavailable have "fst (request_token (?env\<lparr>within_dac := \<lambda>w. True\<rparr>)
      [''https://graph.example/.default''] Map.empty example_state)
     = Inl (CredentialUnavailableError (PyStr ''Couldn't start an HTTP server.'')
         (Some (Socket_error ''port in use'')))" by blast
  with chain have "fst (example_run (Inr Map.empty) (Inl (Socket_error ''port in use'')) True)
     = Inl (CredentialUnavailableError (PyStr ''Couldn't start an HTTP server.'')
         (Some (Socket_error ''port in use'')))"
    by (simp add: example_run_def)
  with unavailable show ?thesis by blast
qed

text \<open>
  Claim C7. An exception of the OS-account attempt that is not a \<^verbatim>\<open>socket.error\<close> is not
  caught: the method raises that very exception and makes no interactive attempt. The
  decorator of line 63 is the one modelled from the spec above.
\<close>

theorem os_other_exception_propagates:
  assumes run: "request_token env scopes kwargs s = (out, s')"
    and ev: "Acquire_token_interactive app args (Inl ex) \<in> set (attempts s s')"
    and pr: "kw_prompt args = Prompt_NONE"
    and sock: "\<not> is_socket_error ex"
  shows "out = Inl ex \<and> interactive_calls s s' = [] \<and>
         attempts s s' = [Acquire_token_interactive app args (Inl ex)]"
  using request_token_paths [OF run] ev pr sock
  by (auto simp: interactive_calls_attempts)

theorem os_other_exception_propagates_witness:
  "fst (example_run (Inl (Other_exception ''ValueError'' ''bad scope''))
          (Inr [''access_token'' \<mapsto> PyStr ''abc'']) False)
     = Inl (Other_exception ''ValueError'' ''bad scope'') \<and>
   interactive_calls example_state
     (snd (example_run (Inl (Other_exception ''ValueError'' ''bad scope''))
        (Inr [''access_token'' \<mapsto> PyStr ''abc'']) False)) = []"
  using os_other_exception_propagates [where
      env = "example_env (Inl (Other_exception ''ValueError'' ''bad scope''))
          (Inr [''access_token'' \<mapsto> PyStr ''abc'']) False"
      and scopes = "[''https://graph.example/.default'']" and kwargs = Map.empty
      and s = example_state
      and out = "fst (example_run (Inl (Other_exception ''ValueError'' ''bad scope''))
          (Inr [''access_token'' \<mapsto> PyStr ''abc'']) False)"
      and s' = "snd (example_run (Inl (Other_exception ''ValueError'' ''bad scope''))
          (Inr [''access_token'' \<mapsto> PyStr ''abc'']) False)"
      and app = 1 and args = "example_args Prompt_NONE"
      and ex = "Other_exception ''ValueError'' ''bad scope''"]
  by (simp add: example_defs)

text \<open>
  Claim C8. The constructor takes the parent window handle, the MSA-passthrough flag and
  the OS-account flag out of its keyword arguments (defaults \<^verbatim>\<open>None\<close>, \<^verbatim>\<open>False\<close>, \<^verbatim>\<open>False\<close>) and
  \<^verbatim>\<open>_request_token\<close> leaves the three attributes as they are. Every acquisition call of a run is
  made on the same application, and its arguments are, field by field: the scopes of the
  call, the login hint and the timeout of the credential, the \<^verbatim>\<open>claims\<close> keyword argument, the
  port of the parsed redirect URL, and the parent window handle and MSA-passthrough flag of
  the credential. The calls differ in the prompt only, \<^verbatim>\<open>msal.Prompt.NONE\<close> for the OS-account
  attempt, which comes first, and \<^verbatim>\<open>select_account\<close> for the interactive one: when both are
  made, the arguments of the second are those of the first with the prompt replaced.
\<close>

theorem broker_options_fixed_and_shared:
  "(init super_init kwargs0 = Inr c \<longrightarrow>
      parent_window_handle c =
        (case kwargs0 ''parent_window_handle'' of None \<Rightarrow> PyNone | Some v \<Rightarrow> v) \<and>
      enable_msa_passthrough c =
        (case kwargs0 ''enable_msa_passthrough'' of None \<Rightarrow> PyBool False | Some v \<Rightarrow> v) \<and>
      use_operating_system_account c =
        (case kwargs0 ''use_operating_system_account'' of None \<Rightarrow> PyBool False | Some v \<Rightarrow> v)) \<and>
   (request_token env scopes kwargs s = (out, s') \<longrightarrow>
      parent_window_handle (self s') = parent_window_handle (self s) \<and>
      enable_msa_passthrough (self s') = enable_msa_passthrough (self s) \<and>
      use_operating_system_account (self s') = use_operating_system_account (self s) \<and>
      (\<exists>app args.
         args = (\<lambda>p.
           \<lparr>kw_scopes = scopes,
            kw_login_hint = login_hint (self s),
            kw_claims_challenge = (case kwargs ''claims'' of None \<Rightarrow> PyNone | Some v \<Rightarrow> v),
            kw_timeout = timeout (self s),
            kw_prompt = p,
            kw_port = (case parsed_url (self s) of None \<Rightarrow> None | Some u \<Rightarrow> url_port u),
            kw_parent_window_handle = parent_window_handle (self s),
            kw_enable_msa_passthrough = enable_msa_passthrough (self s)\<rparr>) \<and>
         (attempts s s' = [] \<or>
          (\<exists>o1. attempts s s' = [Acquire_token_interactive app (args Prompt_NONE) o1]) \<or>
          (\<exists>o2. attempts s s' =
             [Acquire_token_interactive app (args (Prompt_literal ''select_account'')) o2]) \<or>
          (\<exists>o1 o2 a1 a2. attempts s s' =
             [Acquire_token_interactive app a1 o1, Acquire_token_interactive app a2 o2] \<and>
             a1 = args Prompt_NONE \<and>
             a2 = a1\<lparr>kw_prompt := Prompt_literal ''select_account''\<rparr>))))"
proof (intro conjI impI)
  assume "init super_init kwargs0 = Inr c"
  from init_fields [OF this]
  show "parent_window_handle c =
        (case kwargs0 ''parent_window_handle'' of None \<Rightarrow> PyNone | Some v \<Rightarrow> v)"
    and "enable_msa_passthrough c =
        (case kwargs0 ''enable_msa_passthrough'' of None \<Rightarrow> PyBool False | Some v \<Rightarrow> v)"
    and "use_operating_system_account c =
        (case kwargs0 ''use_operating_system_account'' of None \<Rightarrow> PyBool False | Some v \<Rightarrow> v)"
    by (simp_all add: dict_pop_def split: option.splits)
next
  assume run: "request_token env scopes kwargs s = (out, s')"
  from request_token_keeps [OF run]
  show "parent_window_handle (self s') = parent_window_handle (self s)"
    and "enable_msa_passthrough (self s') = enable_msa_passthrough (self s)"
    and "use_operating_system_account (self s') = use_operating_system_account (self s)"
    by simp_all
  let ?args = "\<lambda>p.
           \<lparr>kw_scopes = scopes,
            kw_login_hint = login_hint (self s),
            kw_claims_challenge = (case kwargs ''claims'' of None \<Rightarrow> PyNone | Some v \<Rightarrow> v),
            kw_timeout = timeout (self s),
            kw_prompt = p,
            kw_port = (case parsed_url (self s) of None \<Rightarrow> None | Some u \<Rightarrow> url_port u),
            kw_parent_window_handle = parent_window_handle (self s),
            kw_enable_msa_passthrough = enable_msa_passthrough (self s)\<rparr>"
  have eq: "acquire_kwargs (self s) scopes (dict_get kwargs ''claims'') (port_of (self s)) = ?args"
    by (simp add: acquire_kwargs_def dict_get_def port_of_def fun_eq_iff)
  let ?shape = "\<lambda>app args.
         (attempts s s' = [] \<or>
          (\<exists>o1. attempts s s' = [Acquire_token_interactive app (args Prompt_NONE) o1]) \<or>
          (\<exists>o2. attempts s s' =
             [Acquire_token_interactive app (args (Prompt_literal ''select_account'')) o2]) \<or>
          (\<exists>o1 o2 a1 a2. attempts s s' =
             [Acquire_token_interactive app a1 o1, Acquire_token_interactive app a2 o2] \<and>
             a1 = args Prompt_NONE \<and>
             a2 = a1\<lparr>kw_prompt := Prompt_literal ''select_account''\<rparr>))"
  from request_token_paths [OF run]
  have "\<exists>app. ?shape app
      (acquire_kwargs (self s) scopes (dict_get kwargs ''claims'') (port_of (self s)))"
  proof (elim disjE exE conjE, goal_cases)
    case (1 e)
    then show ?case by simp
  next
    case (2 app s1 args result)
    then show ?case by (intro exI [of _ app]) simp
  next
    case (3 app s1 args ex)
    then show ?case by (intro exI [of _ app]) simp
  next
    case (4 app s1 args o1 o2 ex)
    then show ?case by (intro exI [of _ app]) simp
  next
    case (5 app s1 args o1 o2 result)
    then show ?case by (intro exI [of _ app]) simp
  next
    case (6 app s1 args o2)
    then show ?case by (intro exI [of _ app]) simp
  qed
  then obtain app where "?shape app
      (acquire_kwargs (self s) scopes (dict_get kwargs ''claims'') (port_of (self s)))" ..
  then have "?shape app ?args" unfolding eq .
  then show "\<exists>app args. args = ?args \<and> ?shape app args"
    by (intro exI [of _ app] exI [of _ ?args] conjI refl)
qed

theorem broker_options_fixed_and_shared_witness:
  "init (\<lambda>kwargs. Inr example_base) example_kwargs = Inr example_credential \<and>
   parent_window_handle example_credential = PyInt 1000 \<and>
   enable_msa_passthrough example_credential = PyBool False \<and>
   use_operating_system_account example_credential = PyBool True \<and>
   parent_window_handle (self (snd (example_run (Inl (Socket_error ''no broker''))
     (Inr [''access_token'' \<mapsto> PyStr ''abc'']) False))) = PyInt 1000 \<and>
   attempts example_state
     (snd (example_run (Inl (Socket_error ''no broker'')) (Inr [''access_token'' \<mapsto> PyStr ''abc'']) False))
     = [Acquire_token_interactive 1
          \<lparr>kw_scopes = [''https://graph.example/.default''], kw_login_hint = PyNone,
           kw_claims_challenge = PyNone, kw_timeout = PyInt 300, kw_prompt = Prompt_NONE,
           kw_port = None, kw_parent_window_handle = PyInt 1000,
           kw_enable_msa_passthrough = PyBool False\<rparr>
          (Inl (Socket_error ''no broker'')),
        Acquire_token_interactive 1
          \<lparr>kw_scopes = [''https://graph.example/.default''], kw_login_hint = PyNone,
           kw_claims_challenge = PyNone, kw_timeout = PyInt 300,
           kw_prompt = Prompt_literal ''select_account'',
           kw_port = None, kw_parent_window_handle = PyInt 1000,
           kw_enable_msa_passthrough = PyBool False\<rparr>
          (Inr [''access_token'' \<mapsto> PyStr ''abc''])]"
proof -
  let ?run = "example_run (Inl (Socket_error ''no broker'')) (Inr [''access_token'' \<mapsto> PyStr ''abc'']) False"
  have i: "init (\<lambda>kwargs. Inr example_base) example_kwargs = Inr example_credential"
    by (simp add: init_def dict_pop_def example_kwargs_def example_credential_def)
  have run: "request_token
      (example_env (Inl (Socket_error ''no broker'')) (Inr [''access_token'' \<mapsto> PyStr ''abc'']) False)
      [''https://graph.example/.default''] Map.empty example_state = (fst ?run, snd ?run)"
    by (simp add: example_run_def)
  note fixed = broker_options_fixed_and_shared [where super_init = "\<lambda>kwargs. Inr example_base"
      and ?kwargs0.0 = example_kwargs and c = example_credential
      and env = "example_env (Inl (Socket_error ''no broker'')) (Inr [''access_token'' \<mapsto> PyStr ''abc'']) False"
      and scopes = "[''https://graph.example/.default'']" and kwargs = Map.empty
      and s = example_state and out = "fst ?run" and s' = "snd ?run"]
  from fixed [THEN conjunct1, rule_format, OF i]
  have opts: "parent_window_handle example_credential = PyInt 1000"
    "enable_msa_passthrough example_credential = PyBool False"
    "use_operating_system_account example_credential = PyBool True"
    by (simp_all add: example_kwargs_def)
  from fixed [THEN conjunct2, rule_format, OF run]
  have kept: "parent_window_handle (self (snd ?run)) = parent_window_handle (self example_state)"
    by (rule conjunct1)
  have a: "attempts example_state (snd ?run)
     = [Acquire_token_interactive 1
          \<lparr>kw_scopes = [''https://graph.example/.default''], kw_login_hint = PyNone,
           kw_claims_challenge = PyNone, kw_timeout = PyInt 300, kw_prompt = Prompt_NONE,
           kw_port = None, kw_parent_window_handle = PyInt 1000,
           kw_enable_msa_passthrough = PyBool False\<rparr>
          (Inl (Socket_error ''no broker'')),
        Acquire_token_interactive 1
          \<lparr>kw_scopes = [''https://graph.example/.default''], kw_login_hint = PyNone,
           kw_claims_challenge = PyNone, kw_timeout = PyInt 300,
           kw_prompt = Prompt_literal ''select_account'',
           kw_port = None, kw_parent_window_handle = PyInt 1000,
           kw_enable_msa_passthrough = PyBool False\<rparr>
          (Inr [''access_token'' \<mapsto> PyStr ''abc''])]"
    by (simp add: example_defs)
  from kept opts have "parent_window_handle (self (snd ?run)) = PyInt 1000"
    by (simp add: example_state_def)
  with i opts a show ?thesis by blast
qed

text \<open>
  Claim C9. When the OS-account attempt returns a result without \<^verbatim>\<open>access_token\<close>, the run
  goes on to the interactive attempt, and what the method returns or raises is the
  classification of the interactive outcome alone: when the interactive attempt returns a
  result, the method returns that result or raises an error whose message is that result's
  \<^verbatim>\<open>error_description\<close>, or the generic message when it has none. The result of the
  OS-account attempt takes no part in it.
\<close>

theorem os_tokenless_result_discarded:
  assumes run: "request_token env scopes kwargs s = (out, s')"
    and ev: "Acquire_token_interactive app args (Inr result) \<in> set (attempts s s')"
    and pr: "kw_prompt args = Prompt_NONE"
    and tok: "''access_token'' \<notin> dom result"
  shows "\<exists>outcome.
           attempts s s' =
             [Acquire_token_interactive app args (Inr result),
              Acquire_token_interactive app (args\<lparr>kw_prompt := Prompt_literal ''select_account''\<rparr>) outcome] \<and>
           out = classify (within_dac env (world s')) outcome \<and>
           (\<forall>r. outcome = Inr r \<longrightarrow>
              out = Inr r \<or>
              (\<exists>m. (out = Inl (CredentialUnavailableError m None) \<or>
                    out = Inl (ClientAuthenticationError m None)) \<and>
                   (r ''error_description'' = Some m \<or>
                    r ''error_description'' = None \<and> m = PyStr ''Failed to authenticate user'')))"
proof -
  from request_token_paths [OF run] ev pr tok obtain outcome where
    o: "attempts s s' =
         [Acquire_token_interactive app args (Inr result),
          Acquire_token_interactive app (args\<lparr>kw_prompt := Prompt_literal ''select_account''\<rparr>) outcome]"
       "out = classify (within_dac env (world s')) outcome"
    by auto
  have "out = Inr r \<or>
      (\<exists>m. (out = Inl (CredentialUnavailableError m None) \<or>
            out = Inl (ClientAuthenticationError m None)) \<and>
           (r ''error_description'' = Some m \<or>
            r ''error_description'' = None \<and> m = PyStr ''Failed to authenticate user''))"
    if "outcome = Inr r" for r
    using o(2) that by (auto simp: classify_def dict_get_def dict_getitem_def)
  with o show ?thesis by blast
qed

theorem os_tokenless_result_discarded_witness:
  "fst (example_run (Inr [''error_description'' \<mapsto> PyStr ''no account signed in''])
          (Inr [''error_description'' \<mapsto> PyStr ''declined'']) False)
     = Inl (ClientAuthenticationError (PyStr ''declined'') None) \<and>
   length (interactive_calls example_state
     (snd (example_run (Inr [''error_description'' \<mapsto> PyStr ''no account signed in''])
          (Inr [''error_description'' \<mapsto> PyStr ''declined'']) False))) = 1"
proof -
  let ?run = "example_run (Inr [''error_description'' \<mapsto> PyStr ''no account signed in''])
          (Inr [''error_description'' \<mapsto> PyStr ''declined'']) False"
  have run: "request_token
      (example_env (Inr [''error_description'' \<mapsto> PyStr ''no account signed in''])
          (Inr [''error_description'' \<mapsto> PyStr ''declined'']) False)
      [''https://graph.example/.default''] Map.empty example_state = (fst ?run, snd ?run)"
    by (simp add: example_run_def)
  have ev: "Acquire_token_interactive 1 (example_args Prompt_NONE)
      (Inr [''error_description'' \<mapsto> PyStr ''no account signed in''])
      \<in> set (attempts example_state (snd ?run))"
    by (simp add: example_defs)
  have pr: "kw_prompt (example_args Prompt_NONE) = Prompt_NONE"
    by (simp add: example_args_def)
  have tok: "''access_token'' \<notin> dom [''error_description'' \<mapsto> PyStr ''no account signed in'']"
    by simp
  from os_tokenless_result_discarded [OF run ev pr tok]
  show ?thesis by (simp add: example_defs)
qed

text \<open>
  Claim C10. The classification of an interactive result looks at two things only,
  whether \<^verbatim>\<open>access_token\<close> is present and the entry \<^verbatim>\<open>error_description\<close>: two results that
  agree on these raise the same error or both raise none, whatever their other fields. A
  result that has neither, such as one with an \<^verbatim>\<open>error\<close> field only, raises the error with
  the message \<^verbatim>\<open>Failed to authenticate user\<close>.
\<close>

theorem classification_ignores_other_fields:
  assumes run: "request_token env scopes kwargs s = (out, s')"
    and ev: "Acquire_token_interactive app args (Inr result) \<in> set (attempts s s')"
    and pr: "kw_prompt args = Prompt_literal ''select_account''"
  shows "out = classify (within_dac env (world s')) (Inr result) \<and>
    (\<forall>r. (''access_token'' \<in> dom r \<longleftrightarrow> ''access_token'' \<in> dom result) \<and>
          r ''error_description'' = result ''error_description'' \<longrightarrow>
          (\<forall>d e. classify d (Inr r) = Inl e \<longleftrightarrow> classify d (Inr result) = Inl e)) \<and>
    (''access_token'' \<notin> dom result \<and> ''error_description'' \<notin> dom result \<longrightarrow>
       out = Inl (if within_dac env (world s')
                  then CredentialUnavailableError (PyStr ''Failed to authenticate user'') None
                  else ClientAuthenticationError (PyStr ''Failed to authenticate user'') None))"
proof (intro conjI)
  from request_token_paths [OF run] ev pr
  show o: "out = classify (within_dac env (world s')) (Inr result)" by auto
  show "\<forall>r. (''access_token'' \<in> dom r \<longleftrightarrow> ''access_token'' \<in> dom result) \<and>
           r ''error_description'' = result ''error_description'' \<longrightarrow>
           (\<forall>d e. classify d (Inr r) = Inl e \<longleftrightarrow> classify d (Inr result) = Inl e)"
    by (auto simp: classify_def dict_get_def dict_getitem_def split: option.splits)
  from o show "''access_token'' \<notin> dom result \<and> ''error_description'' \<notin> dom result \<longrightarrow>
           out = Inl (if within_dac env (world s')
                      then CredentialUnavailableError (PyStr ''Failed to authenticate user'') None
                      else ClientAuthenticationError (PyStr ''Failed to authenticate user'') None)"
    by (auto simp: classify_def)
qed

theorem classification_ignores_other_fields_witness:
  "fst (example_run (Inl (Socket_error ''no broker'')) (Inr [''error'' \<mapsto> PyStr ''access_denied'']) False)
     = Inl (ClientAuthenticationError (PyStr ''Failed to authenticate user'') None) \<and>
   fst (example_run (Inl (Socket_error ''no broker'')) (Inr [''error'' \<mapsto> PyStr ''access_denied'']) True)
     = Inl (CredentialUnavailableError (PyStr ''Failed to authenticate user'') None)"
proof -
  let ?out = "\<lambda>d. example_run (Inl (Socket_error ''no broker''))
      (Inr [''error'' \<mapsto> PyStr ''access_denied'']) d"
  have run: "request_token
      (example_env (Inl (Socket_error ''no broker'')) (Inr [''error'' \<mapsto> PyStr ''access_denied'']) d)
      [''https://graph.example/.default''] Map.empty example_state = (fst (?out d), snd (?out d))" for d
    by (simp add: example_run_def)
  have ev: "Acquire_token_interactive 1 (example_args (Prompt_literal ''select_account''))
      (Inr [''error'' \<mapsto> PyStr ''access_denied''])
      \<in> set (attempts example_state (snd (?out d)))" for d
    by (simp add: example_defs)
  have pr: "kw_prompt (example_args (Prompt_literal ''select_account'')) = Prompt_literal ''select_account''"
    by (simp add: example_args_def)
  have "fst (?out d) =
      classify (within_dac (example_env (Inl (Socket_error ''no broker''))
          (Inr [''error'' \<mapsto> PyStr ''access_denied'']) d) (world (snd (?out d))))
        (Inr [''error'' \<mapsto> PyStr ''access_denied''])" for d
    using classification_ignores_other_fields [OF run [of d] ev [of d] pr] by (rule conjunct1)
  from this [of False] this [of True]
  show ?thesis by (simp add: example_env_def classify_def)
qed

text \<open>
  Two more facts about \<^verbatim>\<open>_get_app\<close>: what a call that finds no entry constructs, and that a call
  leaves the map and the cache of the other mode alone.
\<close>

lemma get_app_new:
  assumes run: "get_app env kwargs s = (Inr h, s')"
    and rt: "resolve_tenant env (tenant_id (self s)) (additionally_allowed_tenants (self s)) kwargs = Inr tid"
    and fresh: "applications_map (truthy (dict_get kwargs ''enable_cae'')) (self s) tid = None"
  shows "\<exists>args. App_class args \<in> set (calls s s') \<and> h < length (heap s') \<and>
      length (heap s) \<le> h \<and> heap s' ! h = ClientApplication args \<and>
      app_client_capabilities args =
        (if truthy (dict_get kwargs ''enable_cae'') then Some [''CP1''] else None) \<and>
      app_authority args = authority (self s) @ ''/'' @ tid \<and>
      (if truthy (dict_get kwargs ''enable_cae'') then cae_cache (self s') else cache (self s'))
        = Some (app_token_cache args) \<and>
      app_enable_broker_on_windows args"
  using run
proof (cases rule: get_app_cases)
  case (unresolved e)
  then show ?thesis by simp
next
  case (found tid' c h')
  from token_cache_for_effect(2,3) [OF found(2)] found(1,3) rt fresh
  show ?thesis by (simp add: applications_map_def split: if_splits)
next
  case (new tid' c s0)
  with rt have tid: "tid' = tid" by simp
  note tc = token_cache_for_effect [OF new(2)]
  note tk = token_cache_for_keeps [OF new(2)]
  from new_application_effect [OF new(4)] obtain args where
    a: "trace s' = trace s0 @ [App_class args]"
      "app_client_capabilities args =
        (if truthy (dict_get kwargs ''enable_cae'') then Some [''CP1''] else None)"
      "app_authority args = authority (self s0) @ ''/'' @ tid'"
      "app_token_cache args = c" "app_enable_broker_on_windows args"
      "h = length (heap s0)" "heap s' = heap s0 @ [ClientApplication args]"
    by auto
  from tc(8) a(1) have "App_class args \<in> set (calls s s')"
    by (auto simp: calls_def)
  moreover from tc(1) new_application_keeps [OF new(4)]
  have "(if truthy (dict_get kwargs ''enable_cae'') then cae_cache (self s') else cache (self s'))
        = Some c" by (auto split: if_splits)
  ultimately show ?thesis using a tc(4) tk tid by (auto simp: nth_append)
qed

lemma get_app_other_mode:
  assumes run: "get_app env kwargs s = (r, s')"
  shows "(truthy (dict_get kwargs ''enable_cae'') \<longrightarrow>
            client_applications (self s') = client_applications (self s) \<and>
            cache (self s') = cache (self s)) \<and>
         (\<not> truthy (dict_get kwargs ''enable_cae'') \<longrightarrow>
            cae_client_applications (self s') = cae_client_applications (self s) \<and>
            cae_cache (self s') = cae_cache (self s))"
  using run
proof (cases rule: get_app_cases)
  case (unresolved e)
  then show ?thesis by simp
next
  case (found tid c h)
  from token_cache_for_effect(2,3,6,7) [OF found(2)] show ?thesis by simp
next
  case (new tid c s0)
  from token_cache_for_effect(2,3,6,7) [OF new(2)] new_application_keeps [OF new(4)]
    new_application_effect [OF new(4)]
  show ?thesis by (auto simp: applications_map_def split: if_splits)
qed

text \<open>
  Claim C5. After a call of \<^verbatim>\<open>_get_app\<close> that returned a handle, a second call for the same
  resolved tenant and the same mode returns the same handle and changes nothing: the state
  after it is the state before it, so no cache is initialised and no application is
  constructed. No call of \<^verbatim>\<open>_get_app\<close> removes or replaces an entry of either map. The cache
  initialisation is the one modelled from the spec above.
\<close>

theorem get_app_idempotent:
  assumes first: "get_app env kwargs s = (Inr h, s1)"
    and same_tenant:
      "resolve_tenant env (tenant_id (self s)) (additionally_allowed_tenants (self s)) kwargs' =
       resolve_tenant env (tenant_id (self s)) (additionally_allowed_tenants (self s)) kwargs"
    and same_mode: "truthy (dict_get kwargs' ''enable_cae'') = truthy (dict_get kwargs ''enable_cae'')"
  shows "get_app env kwargs' s1 = (Inr h, s1) \<and>
    calls s1 (snd (get_app env kwargs' s1)) = [] \<and>
    (\<forall>kwargs2 r s2 t a. get_app env kwargs2 s1 = (r, s2) \<longrightarrow>
       (client_applications (self s1) t = Some a \<longrightarrow> client_applications (self s2) t = Some a) \<and>
       (cae_client_applications (self s1) t = Some a \<longrightarrow>
          cae_client_applications (self s2) t = Some a))"
proof (intro conjI allI impI)
  show again: "get_app env kwargs' s1 = (Inr h, s1)"
    using get_app_again [OF first same_tenant same_mode] .
  then show "calls s1 (snd (get_app env kwargs' s1)) = []"
    by (simp add: calls_def)
next
  fix kwargs2 r s2 t a
  assume run: "get_app env kwargs2 s1 = (r, s2)"
  {
    assume "client_applications (self s1) t = Some a"
    with get_app_maps [OF run] show "client_applications (self s2) t = Some a"
      by (cases "truthy (dict_get kwargs2 ''enable_cae'')")
        (auto simp: applications_map_def split: if_splits)
  next
    assume "cae_client_applications (self s1) t = Some a"
    with get_app_maps [OF run] show "cae_client_applications (self s2) t = Some a"
      by (cases "truthy (dict_get kwargs2 ''enable_cae'')")
        (auto simp: applications_map_def split: if_splits)
  }
qed

theorem get_app_idempotent_witness:
  "get_app (example_env (Inr Map.empty) (Inr Map.empty) False) [''enable_cae'' \<mapsto> PyBool True]
       example_state
     = (Inr 1, snd (get_app (example_env (Inr Map.empty) (Inr Map.empty) False)
                      [''enable_cae'' \<mapsto> PyBool True] example_state)) \<and>
   get_app (example_env (Inr Map.empty) (Inr Map.empty) False)
       [''enable_cae'' \<mapsto> PyInt 1, ''claims'' \<mapsto> PyStr ''challenge'']
       (snd (get_app (example_env (Inr Map.empty) (Inr Map.empty) False)
               [''enable_cae'' \<mapsto> PyBool True] example_state))
     = (Inr 1, snd (get_app (example_env (Inr Map.empty) (Inr Map.empty) False)
                      [''enable_cae'' \<mapsto> PyBool True] example_state))"
proof -
  let ?env = "example_env (Inr Map.empty) (Inr Map.empty) False"
  let ?s1 = "snd (get_app ?env [''enable_cae'' \<mapsto> PyBool True] example_state)"
  have first: "get_app ?env [''enable_cae'' \<mapsto> PyBool True] example_state = (Inr 1, ?s1)"
    by (simp add: example_defs)
  have same_tenant:
    "resolve_tenant ?env (tenant_id (self example_state))
        (additionally_allowed_tenants (self example_state))
        [''enable_cae'' \<mapsto> PyInt 1, ''claims'' \<mapsto> PyStr ''challenge''] =
     resolve_tenant ?env (tenant_id (self example_state))
        (additionally_allowed_tenants (self example_state)) [''enable_cae'' \<mapsto> PyBool True]"
    by (simp add: example_env_def)
  have same_mode:
    "truthy (dict_get [''enable_cae'' \<mapsto> PyInt 1, ''claims'' \<mapsto> PyStr ''challenge''] ''enable_cae'') =
     truthy (dict_get [''enable_cae'' \<mapsto> PyBool True] ''enable_cae'')"
    by (simp add: dict_get_def)
  from get_app_idempotent [OF first same_tenant same_mode] first
  show ?thesis by blast
qed

text \<open>
  Claim C6. With \<^verbatim>\<open>enable_cae\<close> true, \<^verbatim>\<open>_get_app\<close> returns the entry of the CAE map and leaves
  the standard map and the standard cache untouched; an application it has to construct is
  constructed with the capabilities \<^verbatim>\<open>["CP1"]\<close>, the authority host followed by a slash and
  the tenant, and the CAE cache. When the registry is in order it stays in order, and the
  handle returned is no entry of the standard map. With \<^verbatim>\<open>enable_cae\<close> false the standard map
  and cache are used and the capabilities are \<^verbatim>\<open>None\<close>.
\<close>

theorem get_app_capability_mode:
  assumes run: "get_app env kwargs s = (Inr h, s')"
    and rt: "resolve_tenant env (tenant_id (self s)) (additionally_allowed_tenants (self s)) kwargs = Inr tid"
  shows "(truthy (dict_get kwargs ''enable_cae'') \<longrightarrow>
      cae_client_applications (self s') tid = Some h \<and>
      client_applications (self s') = client_applications (self s) \<and>
      cache (self s') = cache (self s) \<and>
      (cae_client_applications (self s) tid = None \<longrightarrow>
         (\<exists>args. App_class args \<in> set (calls s s') \<and>
            h < length (heap s') \<and> heap s' ! h = ClientApplication args \<and>
            app_client_capabilities args = Some [''CP1''] \<and>
            app_authority args = authority (self s) @ ''/'' @ tid \<and>
            cae_cache (self s') = Some (app_token_cache args))) \<and>
      (registry_ok s \<longrightarrow> registry_ok s' \<and> (\<forall>t. client_applications (self s') t \<noteq> Some h))) \<and>
    (\<not> truthy (dict_get kwargs ''enable_cae'') \<longrightarrow>
      client_applications (self s') tid = Some h \<and>
      cae_client_applications (self s') = cae_client_applications (self s) \<and>
      cae_cache (self s') = cae_cache (self s) \<and>
      (client_applications (self s) tid = None \<longrightarrow>
         (\<exists>args. App_class args \<in> set (calls s s') \<and>
            h < length (heap s') \<and> heap s' ! h = ClientApplication args \<and>
            app_client_capabilities args = None \<and>
            app_authority args = authority (self s) @ ''/'' @ tid \<and>
            cache (self s') = Some (app_token_cache args))))"
proof -
  from get_app_stored [OF run] rt
  have stored: "applications_map (truthy (dict_get kwargs ''enable_cae'')) (self s') tid = Some h"
    by auto
  note other = get_app_other_mode [OF run]
  note ok = get_app_registry_ok [OF run]
  show ?thesis
  proof (cases "truthy (dict_get kwargs ''enable_cae'')")
    case True
    have "\<exists>args. App_class args \<in> set (calls s s') \<and>
            h < length (heap s') \<and> heap s' ! h = ClientApplication args \<and>
            app_client_capabilities args = Some [''CP1''] \<and>
            app_authority args = authority (self s) @ ''/'' @ tid \<and>
            cae_cache (self s') = Some (app_token_cache args)"
      if "cae_client_applications (self s) tid = None"
      using get_app_new [OF run rt] that True by (auto simp: applications_map_def)
    moreover have "registry_ok s' \<and> (\<forall>t. client_applications (self s') t \<noteq> Some h)"
      if "registry_ok s"
      using ok [OF that] stored True by (auto simp: registry_ok_def applications_map_def)
    ultimately show ?thesis using True stored other by (simp add: applications_map_def)
  next
    case False
    have "\<exists>args. App_class args \<in> set (calls s s') \<and>
            h < length (heap s') \<and> heap s' ! h = ClientApplication args \<and>
            app_client_capabilities args = None \<and>
            app_authority args = authority (self s) @ ''/'' @ tid \<and>
            cache (self s') = Some (app_token_cache args)"
      if "client_applications (self s) tid = None"
      using get_app_new [OF run rt] that False by (auto simp: applications_map_def)
    then show ?thesis using False stored other by (simp add: applications_map_def)
  qed
qed

theorem get_app_capability_mode_witness:
  "registry_ok example_state \<and>
   fst (get_app (example_env (Inr Map.empty) (Inr Map.empty) False) [''enable_cae'' \<mapsto> PyBool True]
       example_state) = Inr 1 \<and>
   (\<exists>args. heap (snd (get_app (example_env (Inr Map.empty) (Inr Map.empty) False)
                [''enable_cae'' \<mapsto> PyBool True] example_state)) ! 1 = ClientApplication args \<and>
      app_client_capabilities args = Some [''CP1''] \<and>
      app_authority args = ''https://login.microsoftonline.com/contoso'') \<and>
   client_applications (self (snd (get_app (example_env (Inr Map.empty) (Inr Map.empty) False)
       [''enable_cae'' \<mapsto> PyBool True] example_state))) ''contoso'' \<noteq> Some 1 \<and>
   (\<exists>args. heap (snd (get_app (example_env (Inr Map.empty) (Inr Map.empty) False)
                Map.empty example_state)) ! 1 = ClientApplication args \<and>
      app_client_capabilities args = None \<and>
      app_authority args = ''https://login.microsoftonline.com/contoso'')"
proof -
  let ?env = "example_env (Inr Map.empty) (Inr Map.empty) False"
  let ?cae = "[''enable_cae'' \<mapsto> PyBool True]"
  let ?s1 = "snd (get_app ?env ?cae example_state)"
  let ?s2 = "snd (get_app ?env Map.empty example_state)"
  have run1: "get_app ?env ?cae example_state = (Inr 1, ?s1)"
    by (simp add: example_defs)
  have run2: "get_app ?env Map.empty example_state = (Inr 1, ?s2)"
    by (simp add: example_defs)
  have rt: "resolve_tenant ?env (tenant_id (self example_state))
        (additionally_allowed_tenants (self example_state)) kwargs = Inr ''contoso''" for kwargs
    by (simp add: example_defs)
  have ok: "registry_ok example_state"
    by (simp add: registry_ok_def example_defs)
  have mode: "truthy (dict_get ?cae ''enable_cae'')" "\<not> truthy (dict_get Map.empty ''enable_cae'')"
    by (simp_all add: dict_get_def)
  have fresh: "cae_client_applications (self example_state) ''contoso'' = None"
    "client_applications (self example_state) ''contoso'' = None"
    "authority (self example_state) @ ''/'' @ ''contoso'' = ''https://login.microsoftonline.com/contoso''"
    by (simp_all add: example_defs)
  from get_app_capability_mode [OF run1 rt] mode(1) ok fresh
  have cae: "(\<exists>args. heap ?s1 ! 1 = ClientApplication args \<and>
      app_client_capabilities args = Some [''CP1''] \<and>
      app_authority args = ''https://login.microsoftonline.com/contoso'') \<and>
    client_applications (self ?s1) ''contoso'' \<noteq> Some 1"
    by (metis (no_types, lifting))
  from get_app_capability_mode [OF run2 rt] mode(2) fresh
  have std: "\<exists>args. heap ?s2 ! 1 = ClientApplication args \<and>
      app_client_capabilities args = None \<and>
      app_authority args = ''https://login.microsoftonline.com/contoso''"
    by (metis (no_types, lifting))
  from run1 have "fst (get_app ?env ?cae example_state) = Inr 1"
    by (metis fst_conv)
  with ok cae std show ?thesis by blast
qed

end
